theory Spec2Isabelle
  imports
    Complex_Main
    "HOL-Library.FSet"
    "HOL-Library.Char_ord"
    "HOL-Library.List_Lexorder"
    "HOL-Library.Product_Lexorder"
begin

section \<open>Conventions of the embedding\<close>

text \<open>
  The detectors of \<^verbatim>\<open>src/pages/cdr_pages\<close> are Python functions over pandas data frames.
  They are embedded as follows.

  \<^item> A scalar of a frame that has not been coerced yet is a \<open>cell\<close>: \<open>None\<close> is the
    missing value (NaN / None), \<open>Some s\<close> is a present value, given by the text that
    \<^verbatim>\<open>str\<close> produces for it.
  \<^item> Python strings are \<open>string\<close>s; the text is taken to be ASCII, so that
    \<^verbatim>\<open>upper\<close>, \<^verbatim>\<open>lower\<close>, \<^verbatim>\<open>strip\<close> and \<^verbatim>\<open>len\<close> act on characters one by one.
  \<^item> A timestamp is an \<open>int\<close>, the nanoseconds since the epoch that pandas stores;
    \<open>None\<close> is NaT.
  \<^item> Python floats are idealised as \<open>real\<close>s.
  \<^item> A Python set is an \<open>fset\<close>.
  \<^item> The parsers of pandas (\<^verbatim>\<open>to_datetime\<close>, \<^verbatim>\<open>to_numeric\<close>) and Python's
    \<^verbatim>\<open>round\<close> are parameters of the functions that call them.
\<close>

type_synonym cell = "string option"

definition astype_str :: "cell \<Rightarrow> string" where
  "astype_str c = (case c of None \<Rightarrow> ''nan'' | Some s \<Rightarrow> s)"

subsection \<open>Strings\<close>

definition ascii_lowercase :: string where
  "ascii_lowercase = ''abcdefghijklmnopqrstuvwxyz''"

definition ascii_uppercase :: string where
  "ascii_uppercase = ''ABCDEFGHIJKLMNOPQRSTUVWXYZ''"

definition upper_char :: "char \<Rightarrow> char" where
  "upper_char c = (case map_of (zip ascii_lowercase ascii_uppercase) c of Some u \<Rightarrow> u | None \<Rightarrow> c)"

definition lower_char :: "char \<Rightarrow> char" where
  "lower_char c = (case map_of (zip ascii_uppercase ascii_lowercase) c of Some l \<Rightarrow> l | None \<Rightarrow> c)"

definition upper :: "string \<Rightarrow> string" where
  "upper s = map upper_char s"

definition lower :: "string \<Rightarrow> string" where
  "lower s = map lower_char s"

text \<open>\<^verbatim>\<open>s.replace(c, "")\<close> for a single character \<open>c\<close>.\<close>

definition remove_char :: "char \<Rightarrow> string \<Rightarrow> string" where
  "remove_char c s = filter (\<lambda>x. x \<noteq> c) s"

definition startswith :: "string \<Rightarrow> string \<Rightarrow> bool" where
  "startswith s p = (take (length p) s = p)"

text \<open>\<^verbatim>\<open>s.startswith(prefixes)\<close> for a tuple of prefixes.\<close>

definition startswith_any :: "string \<Rightarrow> string list \<Rightarrow> bool" where
  "startswith_any s prefixes = list_ex (startswith s) prefixes"

text \<open>The ASCII characters for which \<^verbatim>\<open>str.isspace\<close> holds: 9 to 13 and 28 to 32.\<close>

definition whitespace :: string where
  "whitespace = map char_of [9, 10, 11, 12, 13, 28, 29, 30, 31, 32 :: nat]"

definition isspace :: "char \<Rightarrow> bool" where
  "isspace c = (c \<in> set whitespace)"

definition strip :: "string \<Rightarrow> string" where
  "strip s = rev (dropWhile isspace (rev (dropWhile isspace s)))"

fun split :: "char \<Rightarrow> string \<Rightarrow> string list" where
  "split d [] = [[]]"
| "split d (c # cs) =
     (if c = d then [] # split d cs
      else (case split d cs of w # ws \<Rightarrow> (c # w) # ws | [] \<Rightarrow> [[c]]))"

section \<open>Data frames, Schema Normalizer and Record Validator\<close>

text \<open>
  A frame is its header (the column names, in order) and its rows. A row is a record
  of the cells under the canonical column names; the detectors read no other column.
  Renaming columns changes the header only. A field whose canonical column is absent
  from the header is never read: \<open>validate_input\<close> stops the run first.
\<close>

record 'r frame =
  columns :: "string list"
  rows :: "'r list"

datatype error =
  MissingColumns "string list"
| KeyError "string list"

type_synonym column_map = "(string \<times> string list) list"

text \<open>
  \<^verbatim>\<open>normalize_columns(df, column_map)\<close>, the same function in all five detector modules.
  \<open>match_key\<close> is the expression \<^verbatim>\<open>s.lower().replace(" ", "").replace("_", "")\<close>;
  \<open>df_cols\<close> is the dict comprehension over \<^verbatim>\<open>df.columns\<close> (a later column with the
  same key replaces an earlier one); \<open>first_variant\<close> is the inner loop with its
  \<^verbatim>\<open>break\<close>, \<open>col_rename\<close> the outer loop over \<^verbatim>\<open>column_map.items()\<close>, and \<open>rename\<close>
  is \<^verbatim>\<open>df.rename(columns=col_rename)\<close>, which replaces every column whose name is a key.
\<close>

definition match_key :: "string \<Rightarrow> string" where
  "match_key s = remove_char CHR ''_'' (remove_char CHR '' '' (lower s))"

definition df_cols :: "string list \<Rightarrow> (string \<rightharpoonup> string)" where
  "df_cols cols = fold (\<lambda>col m. m(match_key col \<mapsto> col)) cols Map.empty"

fun first_variant :: "(string \<rightharpoonup> string) \<Rightarrow> string list \<Rightarrow> string option" where
  "first_variant dc [] = None"
| "first_variant dc (variant # variants) =
     (case dc (match_key variant) of
        Some col \<Rightarrow> Some col
      | None \<Rightarrow> first_variant dc variants)"

fun col_rename :: "(string \<rightharpoonup> string) \<Rightarrow> column_map \<Rightarrow> (string \<rightharpoonup> string) \<Rightarrow> (string \<rightharpoonup> string)" where
  "col_rename dc [] cr = cr"
| "col_rename dc ((std_col, variants) # cm) cr =
     col_rename dc cm
       (case first_variant dc variants of
          Some col \<Rightarrow> cr(col \<mapsto> std_col)
        | None \<Rightarrow> cr)"

definition rename :: "(string \<rightharpoonup> string) \<Rightarrow> string list \<Rightarrow> string list" where
  "rename cr cols = map (\<lambda>c. case cr c of Some n \<Rightarrow> n | None \<Rightarrow> c) cols"

definition normalize_columns :: "'r frame \<Rightarrow> column_map \<Rightarrow> 'r frame" where
  "normalize_columns df column_map =
     df\<lparr>columns := rename (col_rename (df_cols (columns df)) column_map Map.empty) (columns df)\<rparr>"

text \<open>
  \<^verbatim>\<open>validate_input(df)\<close>, the same function in all five modules, over the module's
  \<^verbatim>\<open>REQUIRED_COLUMNS\<close>. \<^verbatim>\<open>st.error\<close> followed by \<^verbatim>\<open>st.stop()\<close> ends the script run
  (the exception of \<^verbatim>\<open>st.stop\<close> is not an \<^verbatim>\<open>Exception\<close>, so the \<^verbatim>\<open>except\<close> clause of
  \<^verbatim>\<open>run\<close> does not catch it): the error value carries the list shown in the message.
\<close>

definition validate_input :: "string list \<Rightarrow> 'r frame \<Rightarrow> error + 'r frame" where
  "validate_input REQUIRED_COLUMNS df =
     (let missing = filter (\<lambda>col. col \<notin> set (columns df)) REQUIRED_COLUMNS
      in if missing \<noteq> [] then Inl (MissingColumns missing) else Inr df)"

text \<open>\<^verbatim>\<open>df.dropna(subset=...)\<close> raises \<^verbatim>\<open>KeyError\<close> with the labels that are not columns.\<close>

definition dropna_check :: "string list \<Rightarrow> string list \<Rightarrow> error option" where
  "dropna_check subset_cols cols =
     (let absent = filter (\<lambda>col. col \<notin> set cols) subset_cols
      in if absent \<noteq> [] then Some (KeyError absent) else None)"

subsection \<open>The column maps and required columns of the five modules\<close>

definition Call_Spikes_REQUIRED_COLUMNS :: "string list" where
  "Call_Spikes_REQUIRED_COLUMNS = [''calling_number'', ''called_number'', ''start_time'', ''call_direction'']"

definition Call_Spikes_CDR_COLUMN_MAP :: column_map where
  "Call_Spikes_CDR_COLUMN_MAP =
    [(''calling_number'', [''calling_number'', ''caller'', ''source_number'']),
     (''called_number'', [''called_number'', ''callee'', ''dest_number'']),
     (''start_time'', [''start_time'', ''timestamp'', ''date_time'', ''call_time'']),
     (''call_direction'', [''call_direction'', ''direction'', ''type''])]"

definition Strange_sim_use_REQUIRED_COLUMNS :: "string list" where
  "Strange_sim_use_REQUIRED_COLUMNS = [''calling_number'', ''called_number'', ''call_direction'', ''start_time'']"

definition Strange_sim_use_CDR_COLUMN_MAP :: column_map where
  "Strange_sim_use_CDR_COLUMN_MAP =
    [(''calling_number'', [''calling_number'', ''caller'', ''source_number'', ''a_party'']),
     (''called_number'', [''called_number'', ''callee'', ''dest_number'', ''b_party'']),
     (''start_time'', [''start_time'', ''timestamp'', ''date_time'', ''call_time'']),
     (''call_direction'', [''call_direction'', ''direction'', ''type'', ''call_type'']),
     (''duration'', [''duration'', ''duration_seconds'', ''billable_duration''])]"

definition Toll_Free_Abuse_REQUIRED_COLUMNS :: "string list" where
  "Toll_Free_Abuse_REQUIRED_COLUMNS = [''calling_number'', ''called_number'', ''call_direction'', ''start_time'']"

definition Toll_Free_Abuse_CDR_COLUMN_MAP :: column_map where
  "Toll_Free_Abuse_CDR_COLUMN_MAP =
    [(''calling_number'', [''calling_number'', ''caller'', ''source_number'', ''a_party'']),
     (''called_number'', [''called_number'', ''callee'', ''dest_number'', ''b_party'']),
     (''call_direction'', [''call_direction'', ''direction'', ''type'', ''call_type'']),
     (''start_time'', [''start_time'', ''timestamp'', ''date_time'', ''call_time''])]"

definition SIM_Swapping_REQUIRED_COLUMNS :: "string list" where
  "SIM_Swapping_REQUIRED_COLUMNS = [''imsi'', ''imei'', ''calling_number'', ''called_number'', ''start_time'']"

definition SIM_Swapping_CDR_COLUMN_MAP :: column_map where
  "SIM_Swapping_CDR_COLUMN_MAP =
    [(''imsi'', [''imsi'', ''subscriber_id'', ''sim_id'']),
     (''imei'', [''imei'', ''device_id'', ''serial_number'']),
     (''calling_number'', [''calling_number'', ''caller'', ''source_number'', ''a_party'']),
     (''called_number'', [''called_number'', ''callee'', ''dest_number'', ''b_party'']),
     (''start_time'', [''start_time'', ''timestamp'', ''date_time'', ''call_time''])]"

definition Tower_Jumping_REQUIRED_COLUMNS :: "string list" where
  "Tower_Jumping_REQUIRED_COLUMNS = [''imsi'', ''start_time'', ''latitude'', ''longitude'', ''cell_id'']"

definition Tower_Jumping_CDR_COLUMN_MAP :: column_map where
  "Tower_Jumping_CDR_COLUMN_MAP =
    [(''imsi'', [''imsi'', ''subscriber_id'']),
     (''start_time'', [''start_time'', ''timestamp'', ''date_time'', ''call_time'']),
     (''cell_id'', [''cell_id'', ''cellid'', ''cid'']),
     (''tower_id'', [''tower_id'', ''towerid'', ''lac'', ''location_area_code'']),
     (''latitude'', [''latitude'', ''lat'']),
     (''longitude'', [''longitude'', ''lon'', ''lng''])]"

text \<open>
  What the five maps have in common: every list of variants starts with the canonical
  name itself, and no two canonical names share a matching key among their variants.
\<close>

definition canonical_first :: "column_map \<Rightarrow> bool" where
  "canonical_first cm = list_all (\<lambda>(std_col, variants). variants = [] \<or> hd variants = std_col) cm"

definition keys_apart :: "column_map \<Rightarrow> bool" where
  "keys_apart cm = distinct (concat (map (\<lambda>(std_col, variants). remdups (map match_key variants)) cm))"

definition CDR_COLUMN_MAPS :: "column_map list" where
  "CDR_COLUMN_MAPS =
     [Call_Spikes_CDR_COLUMN_MAP, Strange_sim_use_CDR_COLUMN_MAP, Toll_Free_Abuse_CDR_COLUMN_MAP,
      SIM_Swapping_CDR_COLUMN_MAP, Tower_Jumping_CDR_COLUMN_MAP]"

section \<open>Windowing and grouping\<close>

text \<open>
  \<^verbatim>\<open>df.groupby(key)\<close>: the groups in the ascending order of their keys, each group the
  rows with that key in frame order. A row whose key is missing belongs to no group
  (pandas drops null keys).
\<close>

definition groupby :: "('r \<Rightarrow> 'k::linorder option) \<Rightarrow> 'r list \<Rightarrow> ('k \<times> 'r list) list" where
  "groupby key df =
     map (\<lambda>k. (k, filter (\<lambda>r. key r = Some k) df)) (sort (remdups (List.map_filter key df)))"

text \<open>\<^verbatim>\<open>.size().reset_index(name=...)\<close>: one row per group, the key and the number of rows.\<close>

definition group_size :: "('k \<times> 'r list) list \<Rightarrow> ('k \<times> nat) list" where
  "group_size groups = map (\<lambda>(k, g). (k, length g)) groups"

text \<open>\<^verbatim>\<open>series.dt.floor(freq)\<close> for a frequency of \<open>w\<close> nanoseconds.\<close>

definition floor_to :: "int \<Rightarrow> int \<Rightarrow> int" where
  "floor_to w t = t - t mod w"

definition second_ns :: int where
  "second_ns = 1000000000"

definition hour_ns :: int where
  "hour_ns = 3600 * second_ns"

definition day_ns :: int where
  "day_ns = 86400 * second_ns"

text \<open>
  \<^verbatim>\<open>sort_values(by=..., ascending=False)\<close> on a count: descending, rows of equal count in
  their previous order.
\<close>

definition sort_desc :: "('a \<times> nat) list \<Rightarrow> ('a \<times> nat) list" where
  "sort_desc xs = sort_key (\<lambda>(k, n). - int n) xs"

text \<open>The outgoing codes as each module writes them.\<close>

definition is_outgoing :: "string list \<Rightarrow> cell \<Rightarrow> bool" where
  "is_outgoing accepted call_direction = (upper (astype_str call_direction) \<in> set accepted)"

text \<open>
  \<^verbatim>\<open>series.astype(str).str.replace(r'\.0$', '', regex=True)\<close>: the pattern matches
  \<^verbatim>\<open>.0\<close> at the end of the text, or just before a newline that ends it.
\<close>

definition endswith :: "string \<Rightarrow> string \<Rightarrow> bool" where
  "endswith s x = (length x \<le> length s \<and> drop (length s - length x) s = x)"

definition strip_dot0 :: "string \<Rightarrow> string" where
  "strip_dot0 s =
     (if endswith s ''.0'' then take (length s - 2) s
      else if endswith s [CHR ''.'', CHR ''0'', CHR 0x0A] then take (length s - 3) s @ [CHR 0x0A]
      else s)"

definition clean_id :: "cell \<Rightarrow> string" where
  "clean_id c = strip_dot0 (astype_str c)"

section \<open>Call records of the three call-volume modules\<close>

text \<open>
  The row of Call\_Spikes.py, Strange\_sim\_use.py and Toll\_Free\_Abuse.py. \<open>'n\<close> is the
  type of the two number columns and \<open>'t\<close> of \<open>start_time\<close>: cells as loaded, strings
  and timestamps once \<open>parse_cdr\<close> has coerced them.
\<close>

record ('n, 't) cdr_row =
  calling_number :: 'n
  called_number :: 'n
  start_time :: 't
  call_direction :: cell

section \<open>Call-Volume and Spike detector (Call\_Spikes.py)\<close>

definition Call_Spikes_parse_cdr ::
  "(cell \<Rightarrow> int option) \<Rightarrow> (cell, cell) cdr_row frame \<Rightarrow> (cell, int option) cdr_row frame" where
  "Call_Spikes_parse_cdr to_datetime df0 =
     (let df = normalize_columns df0 Call_Spikes_CDR_COLUMN_MAP
      in \<lparr>columns = columns df,
          rows = map (\<lambda>r. \<lparr>calling_number = calling_number r,
                            called_number = called_number r,
                            start_time = (if ''start_time'' \<in> set (columns df)
                                          then to_datetime (start_time r) else None),
                            call_direction = call_direction r\<rparr>) (rows df)\<rparr>)"

definition Call_Spikes_analyze_logic ::
  "(cell, int option) cdr_row list \<Rightarrow> int \<Rightarrow> int
     \<Rightarrow> (string \<times> nat) list \<times> ((string \<times> int) \<times> nat) list" where
  "Call_Spikes_analyze_logic df intl_threshold spike_threshold =
     (let outgoing_df = filter (\<lambda>r. is_outgoing [''MO'', ''OUTGOING'', ''CALL OUT''] (call_direction r)) df
      in if outgoing_df = [] then ([], [])
         else
           let intl_calls = filter (\<lambda>r. \<not> startswith (astype_str (called_number r)) ''91'') outgoing_df;
               intl_counts = group_size (groupby calling_number intl_calls);
               intl_suspects = filter (\<lambda>(k, n). int n > intl_threshold) intl_counts;
               hour_window = (\<lambda>r. map_option (floor_to hour_ns) (start_time r));
               call_spikes = group_size
                 (groupby (\<lambda>r. case (calling_number r, hour_window r) of
                                  (Some a, Some h) \<Rightarrow> Some (a, h)
                                | _ \<Rightarrow> None) outgoing_df);
               spike_suspects = filter (\<lambda>(k, n). int n > spike_threshold) call_spikes
           in (intl_suspects, spike_suspects))"

definition Call_Spikes_run ::
  "(cell \<Rightarrow> int option) \<Rightarrow> (cell, cell) cdr_row frame \<Rightarrow> int \<Rightarrow> int
     \<Rightarrow> error + ((string \<times> nat) list \<times> ((string \<times> int) \<times> nat) list)" where
  "Call_Spikes_run to_datetime df0 thresh_intl thresh_spike =
     (case validate_input Call_Spikes_REQUIRED_COLUMNS (Call_Spikes_parse_cdr to_datetime df0) of
        Inl e \<Rightarrow> Inl e
      | Inr df \<Rightarrow> Inr (Call_Spikes_analyze_logic (rows df) thresh_intl thresh_spike))"

section \<open>Strange-SIM detector (Strange\_sim\_use.py)\<close>

text \<open>
  The \<open>parse_cdr\<close> of Strange\_sim\_use.py and of Toll\_Free\_Abuse.py, which differ in the
  column map only. A number column that is absent has no cells; its field is then the
  empty text, which nothing reads.
\<close>

definition clean_parse_cdr ::
  "column_map \<Rightarrow> (cell \<Rightarrow> int option) \<Rightarrow> (cell, cell) cdr_row frame
     \<Rightarrow> (string, int option) cdr_row frame" where
  "clean_parse_cdr CDR_COLUMN_MAP to_datetime df0 =
     (let df = normalize_columns df0 CDR_COLUMN_MAP
      in \<lparr>columns = columns df,
          rows = map (\<lambda>r. \<lparr>calling_number = (if ''calling_number'' \<in> set (columns df)
                                              then clean_id (calling_number r) else []),
                            called_number = (if ''called_number'' \<in> set (columns df)
                                             then clean_id (called_number r) else []),
                            start_time = (if ''start_time'' \<in> set (columns df)
                                          then to_datetime (start_time r) else None),
                            call_direction = call_direction r\<rparr>) (rows df)\<rparr>)"

definition Strange_sim_use_parse_cdr ::
  "(cell \<Rightarrow> int option) \<Rightarrow> (cell, cell) cdr_row frame \<Rightarrow> (string, int option) cdr_row frame" where
  "Strange_sim_use_parse_cdr = clean_parse_cdr Strange_sim_use_CDR_COLUMN_MAP"

definition Strange_sim_use_analyze_logic ::
  "(string, int option) cdr_row list \<Rightarrow> int \<Rightarrow> (string \<times> nat) list" where
  "Strange_sim_use_analyze_logic df threshold =
     (let outgoing_df = filter (\<lambda>r. is_outgoing [''MO'', ''OUTGOING'', ''1'', ''CALL OUT''] (call_direction r)) df
      in if outgoing_df = [] then []
         else
           let intl_mask = (\<lambda>r. \<not> startswith (called_number r) ''91'' \<and> length (called_number r) > 6);
               intl_calls = filter intl_mask outgoing_df;
               call_counts = group_size (groupby (\<lambda>r. Some (calling_number r)) intl_calls);
               suspicious_numbers = sort_desc (filter (\<lambda>(k, n). int n > threshold) call_counts)
           in suspicious_numbers)"

definition Strange_sim_use_run ::
  "(cell \<Rightarrow> int option) \<Rightarrow> (cell, cell) cdr_row frame \<Rightarrow> int \<Rightarrow> error + (string \<times> nat) list" where
  "Strange_sim_use_run to_datetime df0 threshold =
     (case validate_input Strange_sim_use_REQUIRED_COLUMNS (Strange_sim_use_parse_cdr to_datetime df0) of
        Inl e \<Rightarrow> Inl e
      | Inr df \<Rightarrow> Inr (Strange_sim_use_analyze_logic (rows df) threshold))"

section \<open>Toll-Free Abuse detector (Toll\_Free\_Abuse.py)\<close>

definition Toll_Free_Abuse_parse_cdr ::
  "(cell \<Rightarrow> int option) \<Rightarrow> (cell, cell) cdr_row frame \<Rightarrow> (string, int option) cdr_row frame" where
  "Toll_Free_Abuse_parse_cdr = clean_parse_cdr Toll_Free_Abuse_CDR_COLUMN_MAP"

text \<open>\<^verbatim>\<open>tuple(p.strip() for p in prefixes_str.split(',') if p.strip())\<close>\<close>

definition parse_prefixes :: "string \<Rightarrow> string list" where
  "parse_prefixes prefixes_str = filter (\<lambda>p. p \<noteq> []) (map strip (split CHR '','' prefixes_str))"

definition tollfree_mask :: "string list \<Rightarrow> (string, int option) cdr_row \<Rightarrow> bool" where
  "tollfree_mask prefixes r =
     (is_outgoing [''MO'', ''OUTGOING'', ''1'', ''CALL OUT''] (call_direction r)
      \<and> startswith_any (called_number r) prefixes)"

text \<open>
  \<^verbatim>\<open>series.value_counts()\<close>: each distinct value with its number of occurrences, the
  larger counts first; values of equal count are taken in the order of their first
  occurrence.
\<close>

definition value_counts :: "'a list \<Rightarrow> ('a \<times> nat) list" where
  "value_counts xs = sort_desc (map (\<lambda>v. (v, count_list xs v)) (rev (remdups (rev xs))))"

definition Toll_Free_Abuse_analyze_logic ::
  "(string, int option) cdr_row list \<Rightarrow> int \<Rightarrow> string
     \<Rightarrow> ((string \<times> int) \<times> nat) list \<times> (string \<times> nat) list" where
  "Toll_Free_Abuse_analyze_logic df abuse_threshold prefixes_str =
     (let prefixes = parse_prefixes prefixes_str;
          tollfree_calls = filter (tollfree_mask prefixes) df
      in if tollfree_calls = [] then ([], [])
         else
           let call_date = (\<lambda>r. map_option (\<lambda>t. t div day_ns) (start_time r));
               daily_counts = group_size
                 (groupby (\<lambda>r. map_option (\<lambda>d. (calling_number r, d)) (call_date r)) tollfree_calls);
               abusive_users = sort_desc (filter (\<lambda>(k, n). int n > abuse_threshold) daily_counts);
               top_targets = take 10 (value_counts (map called_number tollfree_calls))
           in (abusive_users, top_targets))"

definition Toll_Free_Abuse_run ::
  "(cell \<Rightarrow> int option) \<Rightarrow> (cell, cell) cdr_row frame \<Rightarrow> int \<Rightarrow> string
     \<Rightarrow> error + (((string \<times> int) \<times> nat) list \<times> (string \<times> nat) list)" where
  "Toll_Free_Abuse_run to_datetime df0 threshold custom_prefixes =
     (case validate_input Toll_Free_Abuse_REQUIRED_COLUMNS (Toll_Free_Abuse_parse_cdr to_datetime df0) of
        Inl e \<Rightarrow> Inl e
      | Inr df \<Rightarrow> Inr (Toll_Free_Abuse_analyze_logic (rows df) threshold custom_prefixes))"

section \<open>SIM-Swap detector (SIM\_Swapping.py)\<close>

text \<open>
  The row of SIM\_Swapping.py: \<open>'i\<close> is the type of \<open>imsi\<close>, \<open>imei\<close> and
  \<open>called_number\<close> (which \<open>parse_cdr\<close> turns into strings), \<open>'n\<close> of \<open>calling_number\<close>
  and \<open>'t\<close> of \<open>start_time\<close>.
\<close>

record ('i, 'n, 't) sim_row =
  imsi :: 'i
  imei :: 'i
  calling_number :: 'n
  called_number :: 'i
  start_time :: 't

text \<open>
  \<open>parse_cdr\<close> ends with \<^verbatim>\<open>df.dropna(subset=REQUIRED_COLUMNS)\<close>. That call raises
  \<^verbatim>\<open>KeyError\<close> when a required column is absent, whatever the steps before it did; when
  it does not raise, every required column is present, so each guard
  \<^verbatim>\<open>if col in df.columns\<close> before it has held. The three columns that went through
  \<^verbatim>\<open>astype(str)\<close> hold text and are never null: the rows that are dropped are those whose
  \<open>start_time\<close> did not parse (NaT) or whose \<open>calling_number\<close> is missing. The rows that
  remain have no null in a required column, which their type records.
\<close>

definition SIM_Swapping_parse_cdr ::
  "(cell \<Rightarrow> int option) \<Rightarrow> (cell, cell, cell) sim_row frame
     \<Rightarrow> error + (string, string, int) sim_row frame" where
  "SIM_Swapping_parse_cdr to_datetime df0 =
     (let df = normalize_columns df0 SIM_Swapping_CDR_COLUMN_MAP
      in case dropna_check SIM_Swapping_REQUIRED_COLUMNS (columns df) of
           Some e \<Rightarrow> Inl e
         | None \<Rightarrow>
             Inr \<lparr>columns = columns df,
                  rows = List.map_filter
                    (\<lambda>r. case (to_datetime (sim_row.start_time r), sim_row.calling_number r) of
                           (Some t, Some a) \<Rightarrow>
                             Some \<lparr>imsi = clean_id (imsi r),
                                   imei = clean_id (imei r),
                                   calling_number = a,
                                   called_number = clean_id (sim_row.called_number r),
                                   start_time = t\<rparr>
                         | _ \<Rightarrow> None) (rows df)\<rparr>)"

subsection \<open>Jaccard similarity\<close>

definition calculate_jaccard_similarity :: "'a fset \<Rightarrow> 'a fset \<Rightarrow> real" where
  "calculate_jaccard_similarity set_a set_b =
     (if set_a = {||} \<or> set_b = {||} then 0
      else real (fcard (set_a |\<inter>| set_b)) / real (fcard (set_a |\<union>| set_b)))"

subsection \<open>The two methods\<close>

text \<open>The four windows the page offers: \<^verbatim>\<open>'15min'\<close>, \<^verbatim>\<open>'30min'\<close>, \<^verbatim>\<open>'1h'\<close>, \<^verbatim>\<open>'2h'\<close>.\<close>

datatype time_window = Min15 | Min30 | Hour1 | Hour2

fun window_ns :: "time_window \<Rightarrow> int" where
  "window_ns Min15 = 900 * second_ns"
| "window_ns Min30 = 1800 * second_ns"
| "window_ns Hour1 = 3600 * second_ns"
| "window_ns Hour2 = 7200 * second_ns"

record sim_pattern =
  time_window :: int
  imsi_1 :: string
  imsi_2 :: string
  similarity_score :: real
  common_contacts :: "string fset"

text \<open>The index pairs \<open>i < j\<close> of the two nested loops, in their order.\<close>

fun pairs :: "'a list \<Rightarrow> ('a \<times> 'a) list" where
  "pairs [] = []"
| "pairs (x # xs) = map (Pair x) xs @ pairs xs"

text \<open>Logic A: \<^verbatim>\<open>df.groupby('imei')['imsi'].nunique()\<close>, kept where it exceeds 1.\<close>

definition imei_swaps :: "(string, string, int) sim_row list \<Rightarrow> (string \<times> nat) list" where
  "imei_swaps df =
     (let imei_counts = map (\<lambda>(k, g). (k, length (remdups (map imsi g))))
                            (groupby (\<lambda>r. Some (imei r)) df)
      in filter (\<lambda>(k, unique_imsis). unique_imsis > 1) imei_counts)"

text \<open>
  \<^verbatim>\<open>signatures\<close>: one row per (imsi, time bucket), with the set of the numbers called.
\<close>

definition signatures ::
  "int \<Rightarrow> (string, string, int) sim_row list \<Rightarrow> ((string \<times> int) \<times> string fset) list" where
  "signatures w df =
     map (\<lambda>(k, g). (k, fset_of_list (map sim_row.called_number g)))
         (groupby (\<lambda>r. Some (imsi r, floor_to w (sim_row.start_time r))) df)"

text \<open>Logic B. \<open>round2\<close> is \<^verbatim>\<open>round(sim_score, 2)\<close>.\<close>

definition pattern_df ::
  "(real \<Rightarrow> real) \<Rightarrow> (string, string, int) sim_row list \<Rightarrow> time_window \<Rightarrow> real \<Rightarrow> sim_pattern list" where
  "pattern_df round2 df tw similarity_threshold =
     concat (map (\<lambda>(bucket, group).
         if length group < 2 then []
         else concat (map (\<lambda>(((imsis_i, b_i), sets_i), ((imsis_j, b_j), sets_j)).
                let sim_score = calculate_jaccard_similarity sets_i sets_j
                in if sim_score \<ge> similarity_threshold
                   then [\<lparr>time_window = bucket, imsi_1 = imsis_i, imsi_2 = imsis_j,
                          similarity_score = round2 sim_score,
                          common_contacts = sets_i |\<inter>| sets_j\<rparr>]
                   else []) (pairs group)))
       (groupby (\<lambda>((i, b), cs). Some b) (signatures (window_ns tw) df)))"

definition SIM_Swapping_analyze_logic ::
  "(real \<Rightarrow> real) \<Rightarrow> (string, string, int) sim_row list \<Rightarrow> time_window \<Rightarrow> real
     \<Rightarrow> (string \<times> nat) list \<times> sim_pattern list" where
  "SIM_Swapping_analyze_logic round2 df tw similarity_threshold =
     (imei_swaps df, pattern_df round2 df tw similarity_threshold)"

definition SIM_Swapping_run ::
  "(cell \<Rightarrow> int option) \<Rightarrow> (real \<Rightarrow> real) \<Rightarrow> (cell, cell, cell) sim_row frame \<Rightarrow> time_window \<Rightarrow> real
     \<Rightarrow> error + ((string \<times> nat) list \<times> sim_pattern list)" where
  "SIM_Swapping_run to_datetime round2 df0 tw sim_threshold =
     (case SIM_Swapping_parse_cdr to_datetime df0 of
        Inl e \<Rightarrow> Inl e
      | Inr df1 \<Rightarrow>
          (case validate_input SIM_Swapping_REQUIRED_COLUMNS df1 of
             Inl e \<Rightarrow> Inl e
           | Inr df \<Rightarrow> Inr (SIM_Swapping_analyze_logic round2 (rows df) tw sim_threshold)))"

section \<open>Tower-Jump detector (Tower\_Jumping.py)\<close>

record ('i, 'c, 't, 'x) tower_row =
  imsi :: 'i
  start_time :: 't
  latitude :: 'x
  longitude :: 'x
  cell_id :: 'c

text \<open>
  \<open>parse_cdr\<close> of Tower\_Jumping.py: the timestamp and the two coordinates are coerced,
  and \<^verbatim>\<open>dropna(subset=REQUIRED_COLUMNS)\<close> drops every row with a null in a required column
  (or raises, as in SIM\_Swapping.py).
\<close>

definition Tower_Jumping_parse_cdr ::
  "(cell \<Rightarrow> int option) \<Rightarrow> (cell \<Rightarrow> real option) \<Rightarrow> (cell, cell, cell, cell) tower_row frame
     \<Rightarrow> error + (string, string, int, real) tower_row frame" where
  "Tower_Jumping_parse_cdr to_datetime to_numeric df0 =
     (let df = normalize_columns df0 Tower_Jumping_CDR_COLUMN_MAP
      in case dropna_check Tower_Jumping_REQUIRED_COLUMNS (columns df) of
           Some e \<Rightarrow> Inl e
         | None \<Rightarrow>
             Inr \<lparr>columns = columns df,
                  rows = List.map_filter
                    (\<lambda>r. case (tower_row.imsi r, to_datetime (tower_row.start_time r),
                                to_numeric (latitude r), to_numeric (longitude r), cell_id r) of
                           (Some i, Some t, Some la, Some lo, Some c) \<Rightarrow>
                             Some \<lparr>imsi = i, start_time = t, latitude = la, longitude = lo,
                                   cell_id = c\<rparr>
                         | _ \<Rightarrow> None) (rows df)\<rparr>)"

text \<open>\<^verbatim>\<open>np.radians\<close> and \<^verbatim>\<open>np.arctan2\<close> over the reals.\<close>

definition radians :: "real \<Rightarrow> real" where
  "radians x = x * pi / 180"

definition arctan2 :: "real \<Rightarrow> real \<Rightarrow> real" where
  "arctan2 y x =
     (if x > 0 then arctan (y / x)
      else if x < 0 then (if y \<ge> 0 then arctan (y / x) + pi else arctan (y / x) - pi)
      else if y > 0 then pi / 2
      else if y < 0 then - pi / 2
      else 0)"

definition haversine_vectorized :: "real \<Rightarrow> real \<Rightarrow> real \<Rightarrow> real \<Rightarrow> real" where
  "haversine_vectorized lat1 lon1 lat2 lon2 =
     (let R = 6371;
          phi1 = radians lat1; phi2 = radians lat2;
          d_phi = radians (lat2 - lat1);
          d_lambda = radians (lon2 - lon1);
          a = (sin (d_phi / 2))\<^sup>2 + cos phi1 * cos phi2 * (sin (d_lambda / 2))\<^sup>2;
          c = 2 * arctan2 (sqrt a) (sqrt (1 - a))
      in R * c)"

text \<open>
  \<^verbatim>\<open>df.groupby(key)[col].shift(1)\<close>: for each row, the previous row of the frame with the
  same key, if there is one. \<open>seen\<close> maps a key to the last row seen with it.
\<close>

fun groupby_shift :: "('r \<Rightarrow> 'k) \<Rightarrow> 'r list \<Rightarrow> ('k \<rightharpoonup> 'r) \<Rightarrow> 'r option list" where
  "groupby_shift key [] seen = []"
| "groupby_shift key (r # rs) seen = seen (key r) # groupby_shift key rs (seen(key r \<mapsto> r))"

record ('i, 'c) tower_jump =
  jump_imsi :: 'i
  jump_start_time :: int
  from_cell_id :: 'c
  to_cell_id :: 'c
  jump_distance_km :: real
  time_gap_minutes :: real

text \<open>\<^verbatim>\<open>(start_time - prev_start_time).dt.total_seconds() / 60.0\<close>\<close>

definition time_diff_min :: "('i, 'c, int, real) tower_row \<Rightarrow> ('i, 'c, int, real) tower_row \<Rightarrow> real" where
  "time_diff_min prev r =
     real_of_int (tower_row.start_time r - tower_row.start_time prev) / real_of_int second_ns / 60"

definition dist_km :: "('i, 'c, int, real) tower_row \<Rightarrow> ('i, 'c, int, real) tower_row \<Rightarrow> real" where
  "dist_km prev r = haversine_vectorized (latitude prev) (longitude prev) (latitude r) (longitude r)"

text \<open>
  The sorted frame with its shifted columns: each row with its predecessor. A first
  row has NaN and NaT in the shifted columns, and every comparison with them is false.
\<close>

definition shifted :: "('i::linorder, 'c, int, real) tower_row list
    \<Rightarrow> (('i, 'c, int, real) tower_row \<times> ('i, 'c, int, real) tower_row option) list" where
  "shifted df0 =
     (let df = sort_key (\<lambda>r. (tower_row.imsi r, tower_row.start_time r)) df0
      in zip df (groupby_shift tower_row.imsi df Map.empty))"

definition jump_mask :: "real \<Rightarrow> real
    \<Rightarrow> ('i, 'c, int, real) tower_row \<times> ('i, 'c, int, real) tower_row option \<Rightarrow> bool" where
  "jump_mask max_dist_km max_time_min rp =
     (case snd rp of
        None \<Rightarrow> False
      | Some prev \<Rightarrow>
          dist_km prev (fst rp) \<ge> max_dist_km
          \<and> time_diff_min prev (fst rp) \<le> max_time_min
          \<and> time_diff_min prev (fst rp) \<ge> 0)"

definition Tower_Jumping_analyze_logic ::
  "('i::linorder, 'c, int, real) tower_row list \<Rightarrow> real \<Rightarrow> real \<Rightarrow> ('i, 'c) tower_jump list" where
  "Tower_Jumping_analyze_logic df max_dist_km max_time_min =
     List.map_filter
       (\<lambda>rp. case snd rp of
                None \<Rightarrow> None
              | Some prev \<Rightarrow>
                  if jump_mask max_dist_km max_time_min rp
                  then Some \<lparr>jump_imsi = tower_row.imsi (fst rp),
                             jump_start_time = tower_row.start_time (fst rp),
                             from_cell_id = cell_id prev,
                             to_cell_id = cell_id (fst rp),
                             jump_distance_km = dist_km prev (fst rp),
                             time_gap_minutes = time_diff_min prev (fst rp)\<rparr>
                  else None)
       (shifted df)"

definition Tower_Jumping_run ::
  "(cell \<Rightarrow> int option) \<Rightarrow> (cell \<Rightarrow> real option) \<Rightarrow> (cell, cell, cell, cell) tower_row frame
     \<Rightarrow> real \<Rightarrow> real \<Rightarrow> error + (string, string) tower_jump list" where
  "Tower_Jumping_run to_datetime to_numeric df0 dist_thresh time_thresh =
     (case Tower_Jumping_parse_cdr to_datetime to_numeric df0 of
        Inl e \<Rightarrow> Inl e
      | Inr df1 \<Rightarrow>
          (case validate_input Tower_Jumping_REQUIRED_COLUMNS df1 of
             Inl e \<Rightarrow> Inl e
           | Inr df \<Rightarrow> Inr (Tower_Jumping_analyze_logic (rows df) dist_thresh time_thresh)))"

section \<open>Properties\<close>

subsection \<open>Schema Normalizer\<close>

lemma df_cols_snoc: "df_cols (cols @ [c]) = (df_cols cols)(match_key c \<mapsto> c)"
  by (simp add: df_cols_def)

lemma df_cols_Nil: "df_cols [] = Map.empty"
  by (simp add: df_cols_def)

lemma df_cols_Some:
  "df_cols cols k = Some c \<Longrightarrow> c \<in> set cols \<and> match_key c = k"
  by (induction cols arbitrary: c rule: rev_induct)
     (auto simp: df_cols_snoc df_cols_Nil split: if_splits)

lemma df_cols_None: "df_cols cols k = None \<longleftrightarrow> k \<notin> match_key ` set cols"
  by (induction cols rule: rev_induct) (auto simp: df_cols_snoc df_cols_Nil)

lemma df_cols_map:
  assumes "\<And>c. c \<in> set cols \<Longrightarrow> (match_key (f c) = k) = (match_key c = k)"
  shows "df_cols (map f cols) k = map_option f (df_cols cols k)"
  using assms
proof (induction cols rule: rev_induct)
  case Nil
  then show ?case by (simp add: df_cols_Nil)
next
  case (snoc x xs)
  have x: "(match_key (f x) = k) = (match_key x = k)"
    using snoc.prems [of x] by simp
  have "df_cols (map f xs) k = map_option f (df_cols xs k)"
    using snoc.IH snoc.prems by simp
  with x show ?case
    by (auto simp: df_cols_snoc)
qed

lemma first_variant_Some:
  "first_variant dc vs = Some c \<Longrightarrow> \<exists>v \<in> set vs. dc (match_key v) = Some c"
  by (induction vs) (auto split: option.splits)

lemma first_variant_None:
  "first_variant dc vs = None \<longleftrightarrow> (\<forall>v \<in> set vs. dc (match_key v) = None)"
  by (induction vs) (auto split: option.splits)

lemma col_rename_Some:
  "col_rename dc cm cr c = Some s \<Longrightarrow>
     cr c = Some s \<or> (\<exists>vs. (s, vs) \<in> set cm \<and> first_variant dc vs = Some c)"
  by (induction dc cm cr rule: col_rename.induct)
     (fastforce split: option.splits if_splits)+

lemma key_in_concat:
  assumes "(t, ws) \<in> set cm" "w \<in> set ws"
  shows "match_key w \<in> set (concat (map (\<lambda>(std_col, variants). remdups (map match_key variants)) cm))"
  using assms by force

lemma keys_apart_same:
  assumes "keys_apart cm" "(s, vs) \<in> set cm" "(t, ws) \<in> set cm"
    "v \<in> set vs" "w \<in> set ws" "match_key v = match_key w"
  shows "s = t \<and> vs = ws"
  using assms
proof (induction cm)
  case Nil
  then show ?case by simp
next
  case (Cons e cm)
  obtain s0 vs0 where e: "e = (s0, vs0)" by (cases e)
  let ?rest = "concat (map (\<lambda>(std_col, variants). remdups (map match_key variants)) cm)"
  have ka: "keys_apart cm" and apart: "match_key ` set vs0 \<inter> set ?rest = {}"
    using Cons.prems(1) e by (auto simp: keys_apart_def)
  consider (hh) "(s, vs) = e" "(t, ws) = e"
    | (ht) "(s, vs) = e" "(t, ws) \<in> set cm"
    | (th) "(s, vs) \<in> set cm" "(t, ws) = e"
    | (tt) "(s, vs) \<in> set cm" "(t, ws) \<in> set cm"
    using Cons.prems(2,3) by auto
  then show ?case
  proof cases
    case hh
    then show ?thesis using e by auto
  next
    case ht
    have "match_key w \<in> set ?rest"
      using key_in_concat [OF ht(2) Cons.prems(5)] .
    moreover have "match_key w \<in> match_key ` set vs0"
      using ht(1) e Cons.prems(4,6) by (metis Pair_inject imageI)
    ultimately show ?thesis using apart by blast
  next
    case th
    have "match_key v \<in> set ?rest"
      using key_in_concat [OF th(1) Cons.prems(4)] .
    moreover have "match_key v \<in> match_key ` set vs0"
      using th(2) e Cons.prems(5,6) by (metis Pair_inject imageI)
    ultimately show ?thesis using apart by blast
  next
    case tt
    then show ?thesis
      using Cons.IH [OF ka tt Cons.prems(4,5,6)] by simp
  qed
qed

lemma col_rename_cases:
  "col_rename dc cm cr c = cr c \<or>
   (\<exists>s vs. (s, vs) \<in> set cm \<and> first_variant dc vs = Some c \<and> col_rename dc cm cr c = Some s)"
proof (induction cm arbitrary: cr)
  case Nil
  then show ?case by simp
next
  case (Cons e cm)
  obtain std vs where e: "e = (std, vs)" by (cases e)
  show ?case
  proof (cases "first_variant dc vs")
    case None
    then show ?thesis
      using Cons.IH [of cr] e by auto
  next
    case (Some col)
    let ?cr = "cr(col \<mapsto> std)"
    have step: "col_rename dc (e # cm) cr c = col_rename dc cm ?cr c"
      using Some e by simp
    from Cons.IH [of ?cr] show ?thesis
    proof
      assume eq: "col_rename dc cm ?cr c = ?cr c"
      show ?thesis
      proof (cases "col = c")
        case True
        then have "col_rename dc (e # cm) cr c = Some std"
          using step eq by simp
        then show ?thesis
          using True Some e by auto
      next
        case False
        then show ?thesis
          using step eq by simp
      qed
    next
      assume "\<exists>s vs. (s, vs) \<in> set cm \<and> first_variant dc vs = Some c \<and> col_rename dc cm ?cr c = Some s"
      then show ?thesis
        using step by auto
    qed
  qed
qed

lemma first_variant_key:
  assumes "first_variant (df_cols cols) vs = Some c"
  shows "c \<in> set cols \<and> (\<exists>v \<in> set vs. match_key v = match_key c)"
proof -
  from assms obtain v where "v \<in> set vs" "df_cols cols (match_key v) = Some c"
    using first_variant_Some by blast
  then show ?thesis
    using df_cols_Some [of cols "match_key v" c] by auto
qed

lemma col_rename_matched:
  assumes "keys_apart cm" "(s, vs) \<in> set cm" "first_variant (df_cols cols) vs = Some c"
  shows "col_rename (df_cols cols) cm cr c = Some s"
proof -
  have other: "t = s" if h1: "(t, ws) \<in> set cm" and h2: "first_variant (df_cols cols) ws = Some c" for t ws
  proof -
    obtain v where v: "v \<in> set vs" "match_key v = match_key c"
      using first_variant_key [OF assms(3)] by blast
    obtain w where w: "w \<in> set ws" "match_key w = match_key c"
      using first_variant_key [OF h2] by blast
    show ?thesis
      using keys_apart_same [OF assms(1) assms(2) h1 v(1) w(1)] v(2) w(2) by simp
  qed
  from assms(2) other show ?thesis
  proof (induction cm arbitrary: cr)
    case Nil
    then show ?case by simp
  next
    case (Cons e cm)
    obtain t ws where e: "e = (t, ws)" by (cases e)
    show ?case
    proof (cases "(s, vs) \<in> set cm")
      case True
      have rest: "t' = s"
        if "(t', ws') \<in> set cm" "first_variant (df_cols cols) ws' = Some c" for t' ws'
        using Cons.prems(2) [of t' ws'] that by simp
      have "col_rename (df_cols cols) cm cr' c = Some s" for cr'
        using Cons.IH [OF True rest] by simp
      then show ?thesis
        using e by simp
    next
      case False
      then have eq: "t = s" "ws = vs"
        using Cons.prems(1) e by auto
      let ?cr = "cr(c \<mapsto> s)"
      have "col_rename (df_cols cols) cm ?cr c = Some s"
        using col_rename_cases [of "df_cols cols" cm ?cr c] Cons.prems(2) by auto
      then show ?thesis
        using e eq assms(3) by simp
    qed
  qed
qed

lemma normalize_columns_twice:
  assumes ca: "canonical_first cm" and ka: "keys_apart cm"
  shows "normalize_columns (normalize_columns df cm) cm = normalize_columns df cm"
proof -
  define dc where "dc = df_cols (columns df)"
  define cr where "cr = col_rename dc cm Map.empty"
  define f where "f = (\<lambda>c. case cr c of Some n \<Rightarrow> n | None \<Rightarrow> c)"
  define cols' where "cols' = map f (columns df)"
  define dc' where "dc' = df_cols cols'"
  define cr' where "cr' = col_rename dc' cm Map.empty"
  have hd_std: "hd vs = s" if "(s, vs) \<in> set cm" "vs \<noteq> []" for s vs
    using ca that by (auto simp: canonical_first_def list_all_iff)
  have renamed: "\<exists>ws. (t, ws) \<in> set cm \<and> first_variant dc ws = Some x" if "cr x = Some t" for x t
    using col_rename_Some [of dc cm Map.empty x t] that by (simp add: cr_def)
  have fixed: "c = s" if sv: "(s, vs) \<in> set cm" and fv: "first_variant dc' vs = Some c" for s vs c
  proof -
    obtain v where v: "v \<in> set vs" "match_key v = match_key c" and c_in: "c \<in> set cols'"
      using first_variant_key [of cols' vs c] fv by (auto simp: dc'_def)
    obtain c0 where c0: "c0 \<in> set (columns df)" "c = f c0"
      using c_in by (auto simp: cols'_def)
    show ?thesis
    proof (cases "cr c0")
      case (Some t)
      then have ct: "c = t" using c0 by (simp add: f_def)
      obtain ws where ws: "(t, ws) \<in> set cm" "first_variant dc ws = Some c0"
        using renamed [OF Some] by blast
      have "ws \<noteq> []" using ws(2) by auto
      then have "t \<in> set ws" using hd_std [OF ws(1)] by (metis list.set_sel(1))
      then show ?thesis
        using keys_apart_same [OF ka sv ws(1) v(1), of t] v(2) ct by simp
    next
      case None
      then have cc: "c = c0" using c0 by (simp add: f_def)
      have vs_ne: "vs \<noteq> []" using v(1) by auto
      then obtain rest where vs: "vs = s # rest"
        using hd_std [OF sv] by (cases vs) auto
      have "dc (match_key v) \<noteq> None"
        using c0(1) cc v(2) by (simp add: dc_def df_cols_None)
      then obtain c1 where c1: "first_variant dc vs = Some c1"
        using v(1) first_variant_None [of dc vs] by fastforce
      have cr1: "cr c1 = Some s"
        using col_rename_matched [OF ka sv, of "columns df" c1] c1 by (simp add: cr_def dc_def)
      have "c1 \<in> set (columns df)"
        using first_variant_key [of "columns df" vs c1] c1 by (simp add: dc_def)
      then have "s \<in> set cols'"
        using cr1 by (force simp: cols'_def f_def)
      then have "dc' (match_key s) \<noteq> None"
        by (simp add: dc'_def df_cols_None)
      then have "dc' (match_key s) = Some c"
        using fv vs by auto
      have s_in: "s \<in> set vs" using vs by simp
      have c1_last: "dc (match_key s) = Some c1"
      proof -
        have "match_key c0 = match_key s"
          using df_cols_Some [of cols' "match_key s" c] \<open>dc' (match_key s) = Some c\<close> cc
          by (simp add: dc'_def)
        then have "match_key s \<in> match_key ` set (columns df)"
          using c0(1) by (metis imageI)
        then have "dc (match_key s) \<noteq> None"
          by (simp add: dc_def df_cols_None)
        then show ?thesis
          using c1 vs by auto
      qed
      have c1_key: "match_key c1 = match_key s"
        using df_cols_Some [of "columns df" "match_key s" c1] c1_last by (simp add: dc_def)
      have keep: "(match_key (f x) = match_key s) = (match_key x = match_key s)"
        if x_in: "x \<in> set (columns df)" for x
      proof (cases "cr x")
        case None
        then show ?thesis by (simp add: f_def)
      next
        case (Some t)
        then have fx: "f x = t" by (simp add: f_def)
        obtain ws where ws: "(t, ws) \<in> set cm" "first_variant dc ws = Some x"
          using renamed [OF Some] by blast
        have "ws \<noteq> []" using ws(2) by auto
        then have t_in: "t \<in> set ws" using hd_std [OF ws(1)] by (metis list.set_sel(1))
        obtain w where w: "w \<in> set ws" "match_key w = match_key x"
          using first_variant_key [of "columns df" ws x] ws(2) by (auto simp: dc_def)
        show ?thesis
        proof
          assume "match_key (f x) = match_key s"
          then have "s = t \<and> vs = ws"
            using keys_apart_same [OF ka sv ws(1) s_in t_in] fx by simp
          then have "x = c1" using ws(2) c1 by simp
          then show "match_key x = match_key s" using c1_key by simp
        next
          assume "match_key x = match_key s"
          then have "s = t \<and> vs = ws"
            using keys_apart_same [OF ka sv ws(1) s_in w(1)] w(2) by simp
          then show "match_key (f x) = match_key s" using fx by simp
        qed
      qed
      have "dc' (match_key s) = map_option f (dc (match_key s))"
        unfolding dc'_def cols'_def dc_def
        by (rule df_cols_map) (rule keep)
      then have "dc' (match_key s) = Some s"
        using c1_last cr1 by (simp add: f_def)
      then show ?thesis
        using \<open>dc' (match_key s) = Some c\<close> by simp
    qed
  qed
  have id: "(case cr' c of Some n \<Rightarrow> n | None \<Rightarrow> c) = c" for c
  proof (cases "cr' c")
    case None
    then show ?thesis by simp
  next
    case (Some n)
    then obtain vs where "(n, vs) \<in> set cm" "first_variant dc' vs = Some c"
      using col_rename_Some [of dc' cm Map.empty c n] by (auto simp: cr'_def)
    then have "c = n" by (rule fixed)
    then show ?thesis using Some by simp
  qed
  have "rename cr' cols' = cols'"
    by (simp add: rename_def id)
  moreover have "columns (normalize_columns df cm) = cols'"
    by (simp add: normalize_columns_def rename_def cols'_def f_def cr_def dc_def)
  ultimately show ?thesis
    by (simp add: normalize_columns_def cr'_def dc'_def)
qed


lemma CDR_COLUMN_MAPS_canonical:
  "list_all (\<lambda>cm. canonical_first cm \<and> keys_apart cm) CDR_COLUMN_MAPS"
  by code_simp

text \<open>
  The two conditions are needed: with a map whose canonical names are variants of one
  another, a second pass renames again.
\<close>

lemma normalize_columns_twice_needs_keys_apart:
  "normalize_columns
     (normalize_columns \<lparr>columns = [''b'', ''c''], rows = [()]\<rparr> [(''a'', [''b'']), (''b'', [''c''])])
     [(''a'', [''b'']), (''b'', [''c''])]
   \<noteq> normalize_columns \<lparr>columns = [''b'', ''c''], rows = [()]\<rparr> [(''a'', [''b'']), (''b'', [''c''])]"
  by code_simp

lemma normalize_columns_example:
  "columns (normalize_columns
      \<lparr>columns = [''Caller'', ''Dest Number'', ''TIMESTAMP'', ''type'', ''Tower''], rows = [()]\<rparr>
      Call_Spikes_CDR_COLUMN_MAP)
   = [''calling_number'', ''called_number'', ''start_time'', ''call_direction'', ''Tower'']"
  by code_simp

text \<open>
  Claim C9. Column normalization is idempotent: for each of the column maps of the
  detectors, normalizing the output of a normalization with the same map changes
  nothing, neither the column names nor the rows.
\<close>

theorem C9_normalize_columns_idempotent:
  assumes "column_map \<in> set CDR_COLUMN_MAPS"
  shows "normalize_columns (normalize_columns df column_map) column_map
         = normalize_columns df column_map"
proof -
  have "canonical_first column_map \<and> keys_apart column_map"
    using CDR_COLUMN_MAPS_canonical assms by (simp add: list_all_iff)
  then show ?thesis
    by (simp add: normalize_columns_twice)
qed

theorem C9_normalize_columns_idempotent_witness:
  "Call_Spikes_CDR_COLUMN_MAP \<in> set CDR_COLUMN_MAPS
   \<and> columns (normalize_columns
        \<lparr>columns = [''Caller'', ''Dest Number'', ''TIMESTAMP'', ''type'', ''Tower''], rows = [()]\<rparr>
        Call_Spikes_CDR_COLUMN_MAP)
     = [''calling_number'', ''called_number'', ''start_time'', ''call_direction'', ''Tower'']
   \<and> normalize_columns
        (normalize_columns
           \<lparr>columns = [''Caller'', ''Dest Number'', ''TIMESTAMP'', ''type'', ''Tower''], rows = [()]\<rparr>
           Call_Spikes_CDR_COLUMN_MAP)
        Call_Spikes_CDR_COLUMN_MAP
     = normalize_columns
         \<lparr>columns = [''Caller'', ''Dest Number'', ''TIMESTAMP'', ''type'', ''Tower''], rows = [()]\<rparr>
         Call_Spikes_CDR_COLUMN_MAP"
proof -
  have m: "Call_Spikes_CDR_COLUMN_MAP \<in> set CDR_COLUMN_MAPS"
    by (simp add: CDR_COLUMN_MAPS_def)
  show ?thesis
    using m normalize_columns_example C9_normalize_columns_idempotent [OF m] by simp
qed

subsection \<open>Jaccard similarity\<close>

lemma jaccard_self:
  assumes "S \<noteq> {||}"
  shows "calculate_jaccard_similarity S S = 1"
proof -
  have "fcard S \<noteq> 0"
    using assms by simp
  then show ?thesis
    using assms by (simp add: calculate_jaccard_similarity_def)
qed

lemma jaccard_empty:
  "calculate_jaccard_similarity {||} B = 0" "calculate_jaccard_similarity A {||} = 0"
  by (simp_all add: calculate_jaccard_similarity_def)

lemma jaccard_range:
  "0 \<le> calculate_jaccard_similarity A B" "calculate_jaccard_similarity A B \<le> 1"
proof -
  show "0 \<le> calculate_jaccard_similarity A B"
    by (simp add: calculate_jaccard_similarity_def)
  have "fcard (A |\<inter>| B) \<le> fcard (A |\<union>| B)"
    by (rule fcard_mono) auto
  then have le: "real (fcard (A |\<inter>| B)) \<le> real (fcard (A |\<union>| B))"
    by simp
  show "calculate_jaccard_similarity A B \<le> 1"
  proof (cases "A = {||} \<or> B = {||}")
    case True
    then show ?thesis
      by (simp add: calculate_jaccard_similarity_def)
  next
    case False
    then have "A |\<union>| B \<noteq> {||}"
      by simp
    then have "0 < fcard (A |\<union>| B)"
      by (simp add: zero_less_iff_neq_zero)
    with le False show ?thesis
      by (simp add: calculate_jaccard_similarity_def divide_le_eq_1)
  qed
qed

text \<open>
  Claim C8. For the Jaccard similarity of the SIM-Swap detector: a non-empty set has
  similarity 1 with itself; when at least one of the two sets is empty the similarity
  is 0; and the similarity of any two sets lies between 0 and 1.
\<close>

theorem C8_jaccard_similarity:
  "(S \<noteq> {||} \<longrightarrow> calculate_jaccard_similarity S S = 1)
   \<and> (A = {||} \<or> B = {||} \<longrightarrow> calculate_jaccard_similarity A B = 0)
   \<and> 0 \<le> calculate_jaccard_similarity A B
   \<and> calculate_jaccard_similarity A B \<le> 1"
  using jaccard_self [of S] jaccard_empty jaccard_range [of A B] by auto

theorem C8_jaccard_similarity_witness:
  "{|''9811'', ''9822'', ''9833''|} \<noteq> {||}
   \<and> calculate_jaccard_similarity {|''9811'', ''9822'', ''9833''|} {|''9811'', ''9822'', ''9833''|} = 1
   \<and> calculate_jaccard_similarity {|''9811''|} ({||} :: string fset) = 0
   \<and> 0 \<le> calculate_jaccard_similarity {|''9811''|} ({||} :: string fset)
   \<and> calculate_jaccard_similarity {|''9811''|} ({||} :: string fset) \<le> 1"
  using C8_jaccard_similarity [of "{|''9811'', ''9822'', ''9833''|}" "{|''9811''|}" "{||}"]
  by simp

end
